theory Spec2Isabelle
  imports Main "HOL-Library.Word" "HOL-Library.Extended_Nat"
begin

unbundle bit_operations_syntax

section \<open>The Identify service of js-libp2p (src/identify/index.ts)\<close>

text \<open>
  A shallow embedding of \<^verbatim>\<open>IdentifyService\<close>. Every method is a function from the
  state of the node before the call to the state after it. A \<^verbatim>\<open>throw\<close> that leaves a
  method is an error value returned beside the state; a \<^verbatim>\<open>throw\<close> that the method
  catches itself is a branch of the function. The \<^verbatim>\<open>async\<close> methods are run to
  completion one after the other (the single-threaded, cooperative schedule without
  interleaving); timeouts and abort signals are not part of the model.
\<close>

subsection \<open>Data\<close>

type_synonym byte = "8 word"
type_synonym bytes = "byte list"

text \<open>A \<^verbatim>\<open>PeerId\<close> is its multihash; \<^verbatim>\<open>a.equals(b)\<close> is equality of the multihashes.\<close>

datatype PeerId = PeerId bytes

text \<open>A \<^verbatim>\<open>Multiaddr\<close> is its binary form \<^verbatim>\<open>ma.bytes\<close>.\<close>

datatype Multiaddr = Multiaddr (ma_bytes: bytes)

text \<open>The protobuf message \<^verbatim>\<open>Identify\<close> (pb/message.js): optional fields are options,
  repeated fields are lists.\<close>

record Identify =
  protocolVersion :: "string option"
  agentVersion :: "string option"
  publicKey :: "bytes option"
  listenAddrs :: "bytes list"
  observedAddr :: "bytes option"
  protocols :: "string list"
  signedPeerRecord :: "bytes option"

text \<open>A \<^verbatim>\<open>RecordEnvelope\<close> of @libp2p/peer-record, once opened: the peer-id of the signing
  key, the sequence number and the addresses of the peer record it wraps.\<close>

record RecordEnvelope =
  envelope_peerId :: PeerId
  envelope_seq :: nat
  envelope_multiaddrs :: "Multiaddr list"

text \<open>The error codes of \<^verbatim>\<open>../errors.js\<close> that the service throws.
  \<^verbatim>\<open>ERR_MESSAGE_TOO_LARGE\<close> is the code the frame decoder gives an oversized frame.\<close>

datatype code =
    ERR_CONNECTION_ENDED
  | ERR_INVALID_MESSAGE
  | ERR_MISSING_PUBLIC_KEY
  | ERR_INVALID_PEER
  | ERR_MESSAGE_TOO_LARGE

text \<open>A thrown value: a \<^verbatim>\<open>CodeError\<close> of this module with one of the codes above, or
  an error of a dependency (\<open>LibError\<close> with its message), which carries none of them.\<close>

datatype error = CodeError code | LibError string

text \<open>A \<^verbatim>\<open>Connection\<close>: the remote peer, the remote address, and what
  \<^verbatim>\<open>newStream([protocol])\<close> gives: \<open>Inl e\<close> when opening the stream throws \<open>e\<close>,
  \<open>Inr bs\<close> for a stream on which the remote writes the bytes \<open>bs\<close> and closes.\<close>

record connection =
  remotePeer :: PeerId
  remoteAddr :: Multiaddr
  newStream :: "string \<Rightarrow> error + bytes"

text \<open>\<^verbatim>\<open>IdentifyServiceInit\<close>. \<^verbatim>\<open>maxIdentifyMessageSize\<close> and
  \<^verbatim>\<open>maxObservedAddresses\<close> are optional.\<close>

record IdentifyServiceInit =
  protocolPrefix :: string
  host_agentVersion :: string
  timeout :: nat
  maxIdentifyMessageSize :: "nat option"
  maxInboundStreams :: nat
  maxOutboundStreams :: nat
  maxPushIncomingStreams :: nat
  maxPushOutgoingStreams :: nat
  maxObservedAddresses :: "nat option"

text \<open>The constants imported from \<^verbatim>\<open>./consts.js\<close>, a file that is not among the sources:
  they are parameters of the model.\<close>

record constants =
  IDENTIFY_PROTOCOL_VERSION :: string
  MULTICODEC_IDENTIFY_PROTOCOL_NAME :: string
  MULTICODEC_IDENTIFY_PUSH_PROTOCOL_NAME :: string
  MULTICODEC_IDENTIFY_PROTOCOL_VERSION :: string
  MULTICODEC_IDENTIFY_PUSH_PROTOCOL_VERSION :: string

text \<open>The peer store (@libp2p/peer-store): its four books as finite maps.\<close>

record peer_store =
  addressBook :: "PeerId \<rightharpoonup> Multiaddr list"
  protoBook :: "PeerId \<rightharpoonup> string list"
  metadataBook :: "PeerId \<times> string \<rightharpoonup> bytes"
  peerRecordEnvelope :: "PeerId \<rightharpoonup> bytes"

text \<open>
  The functions the service imports or reaches through its components, whose code is
  not in this file. They are parameters of the model; \<open>None\<close> (or \<open>Inl\<close>) is a throw.
  \<^item> \<open>Identify_decode\<close>: \<^verbatim>\<open>Identify.decode\<close> of pb/message.js;
  \<^item> \<open>peerIdFromKeys\<close>: @libp2p/peer-id, \<open>Inl msg\<close> when it throws;
  \<^item> \<open>openAndCertify\<close>: \<^verbatim>\<open>RecordEnvelope.openAndCertify(bytes, PeerRecord.DOMAIN)\<close>;
  \<^item> \<open>seal\<close>: \<^verbatim>\<open>RecordEnvelope.seal(new PeerRecord({peerId, multiaddrs}), peerId)\<close>;
  \<^item> \<open>marshal\<close>: \<^verbatim>\<open>envelope.marshal().subarray()\<close>;
  \<^item> \<open>multiaddr\<close>: the parser \<^verbatim>\<open>multiaddr(addr)\<close> of @multiformats/multiaddr;
  \<^item> \<open>decapsulateCode_p2p\<close>: \<^verbatim>\<open>ma.decapsulateCode(protocols('p2p').code)\<close>;
  \<^item> \<open>consumePeerRecord\<close>: \<^verbatim>\<open>peerStore.addressBook.consumePeerRecord(envelope)\<close>, the
    answer and the peer store after it;
  \<^item> \<open>addObservedAddr\<close>: \<^verbatim>\<open>addressManager.addObservedAddr(ma)\<close>, as a function on the
    observed addresses the manager holds.
\<close>

record deps =
  Identify_decode :: "bytes \<Rightarrow> Identify option"
  peerIdFromKeys :: "bytes \<Rightarrow> string + PeerId"
  openAndCertify :: "bytes \<Rightarrow> RecordEnvelope option"
  seal :: "PeerId \<Rightarrow> Multiaddr list \<Rightarrow> RecordEnvelope option"
  marshal :: "RecordEnvelope \<Rightarrow> bytes"
  multiaddr :: "bytes \<Rightarrow> Multiaddr option"
  decapsulateCode_p2p :: "Multiaddr \<Rightarrow> Multiaddr"
  consumePeerRecord :: "RecordEnvelope \<Rightarrow> peer_store \<Rightarrow> bool \<times> peer_store"
  addObservedAddr :: "Multiaddr \<Rightarrow> Multiaddr list \<Rightarrow> Multiaddr list"

text \<open>\<^verbatim>\<open>components.peerId\<close>: the local peer-id and its optional \<^verbatim>\<open>publicKey\<close>.\<close>

record components =
  peerId :: PeerId
  peerId_publicKey :: "bytes option"

text \<open>The writes the service makes on the peer store and the address manager, in the
  order it makes them: the record a spy on the two components would keep.\<close>

datatype call =
    AddressBook_set PeerId "Multiaddr list"
  | ConsumePeerRecord RecordEnvelope
  | ProtoBook_set PeerId "string list"
  | MetadataBook_setValue PeerId string bytes
  | AddObservedAddr Multiaddr

fun is_AddressBook_set :: "call \<Rightarrow> bool" where
  "is_AddressBook_set (AddressBook_set p mas) = True"
| "is_AddressBook_set other = False"

fun is_AddObservedAddr :: "call \<Rightarrow> bool" where
  "is_AddObservedAddr (AddObservedAddr ma) = True"
| "is_AddObservedAddr other = False"

text \<open>The three listeners the constructor subscribes, and the events they listen to.\<close>

datatype listener = OnPeerConnect | OnChangeMultiaddrs | OnChangeProtocols

datatype event = PeerConnect connection | ChangeMultiaddrs PeerId | ChangeProtocols PeerId

text \<open>
  The state of the node as the service sees it: the peer store, the address manager
  (\<open>observedAddrs\<close> is \<^verbatim>\<open>getObservedAddrs()\<close>, \<open>addresses\<close> is \<^verbatim>\<open>getAddresses()\<close>), the
  connection manager's connections, the registrar's handlers with their stream limits,
  the service's \<^verbatim>\<open>started\<close> flag, the listeners subscribed on the connection manager
  and the peer store, the push messages written to remote peers, and the writes made.
\<close>

record state =
  peerStore :: peer_store
  observedAddrs :: "Multiaddr list"
  addresses :: "Multiaddr list"
  connections :: "connection list"
  handlers :: "string \<rightharpoonup> nat \<times> nat"
  started :: bool
  listeners :: "listener list"
  pushed :: "(PeerId \<times> Identify) list"
  calls :: "call list"

subsection \<open>The components' methods\<close>

text \<open>Modelled from the spec: the writes on the books of the peer store
  (@libp2p/peer-store, whose code is not among the sources). \<^verbatim>\<open>addressBook.set\<close>,
  \<^verbatim>\<open>protoBook.set\<close> and \<^verbatim>\<open>metadataBook.setValue\<close> store the value under the peer (and key)
  and do not throw; \<^verbatim>\<open>consumePeerRecord\<close> and \<^verbatim>\<open>addObservedAddr\<close> are the parameters of
  \<open>deps\<close>. Each write is appended to \<open>calls\<close>.\<close>

definition addressBook_set :: "PeerId \<Rightarrow> Multiaddr list \<Rightarrow> state \<Rightarrow> state" where
  "addressBook_set p mas s =
     s\<lparr>peerStore := (peerStore s)\<lparr>addressBook := (addressBook (peerStore s))(p \<mapsto> mas)\<rparr>,
       calls := calls s @ [AddressBook_set p mas]\<rparr>"

definition addressBook_consumePeerRecord :: "deps \<Rightarrow> RecordEnvelope \<Rightarrow> state \<Rightarrow> bool \<times> state" where
  "addressBook_consumePeerRecord d envelope s =
     (fst (consumePeerRecord d envelope (peerStore s)),
      s\<lparr>peerStore := snd (consumePeerRecord d envelope (peerStore s)),
        calls := calls s @ [ConsumePeerRecord envelope]\<rparr>)"

definition protoBook_set :: "PeerId \<Rightarrow> string list \<Rightarrow> state \<Rightarrow> state" where
  "protoBook_set p ps s =
     s\<lparr>peerStore := (peerStore s)\<lparr>protoBook := (protoBook (peerStore s))(p \<mapsto> ps)\<rparr>,
       calls := calls s @ [ProtoBook_set p ps]\<rparr>"

definition metadataBook_setValue :: "PeerId \<Rightarrow> string \<Rightarrow> bytes \<Rightarrow> state \<Rightarrow> state" where
  "metadataBook_setValue p key v s =
     s\<lparr>peerStore := (peerStore s)\<lparr>metadataBook := (metadataBook (peerStore s))((p, key) \<mapsto> v)\<rparr>,
       calls := calls s @ [MetadataBook_setValue p key v]\<rparr>"

definition addressManager_addObservedAddr :: "deps \<Rightarrow> Multiaddr \<Rightarrow> state \<Rightarrow> state" where
  "addressManager_addObservedAddr d ma s =
     s\<lparr>observedAddrs := addObservedAddr d ma (observedAddrs s),
       calls := calls s @ [AddObservedAddr ma]\<rparr>"

text \<open>Modelled from the spec: \<^verbatim>\<open>peerStore.get(peerId).protocols\<close>, the recorded protocol
  set of a peer; a peer the store does not know has none.\<close>

definition peerStore_get_protocols :: "state \<Rightarrow> PeerId \<Rightarrow> string list" where
  "peerStore_get_protocols s p = (case protoBook (peerStore s) p of None \<Rightarrow> [] | Some ps \<Rightarrow> ps)"

text \<open>Modelled from the spec: the registrar (its code is not among the sources).
  \<^verbatim>\<open>handle(protocol, handler, limits)\<close> registers the protocol with its stream limits,
  \<^verbatim>\<open>unhandle(protocol)\<close> unregisters it.\<close>

definition registrar_handle :: "string \<Rightarrow> nat \<times> nat \<Rightarrow> state \<Rightarrow> state" where
  "registrar_handle protocol limits s = s\<lparr>handlers := (handlers s)(protocol \<mapsto> limits)\<rparr>"

definition registrar_unhandle :: "string \<Rightarrow> state \<Rightarrow> state" where
  "registrar_unhandle protocol s = s\<lparr>handlers := (handlers s)(protocol := None)\<rparr>"

text \<open>\<^verbatim>\<open>uint8ArrayFromString\<close>: the bytes of a string.\<close>

definition uint8ArrayFromString :: "string \<Rightarrow> bytes" where
  "uint8ArrayFromString str = map of_char str"

subsection \<open>One length-prefixed frame\<close>

text \<open>
  Modelled from the spec: \<^verbatim>\<open>lp.decode({ maxDataLength })\<close> followed by \<^verbatim>\<open>first\<close>, the
  frame decoder of the package it-length-prefixed, whose code is not among the sources.
  The spec's \<^verbatim>\<open>decode_one(stream, max_len)\<close>: read a varint; if its value exceeds
  \<^verbatim>\<open>max_len\<close>, fail with \<^verbatim>\<open>ERR_MESSAGE_TOO_LARGE\<close> without consuming the payload;
  otherwise read exactly that many bytes. A stream closed before one complete frame
  arrived is \<^verbatim>\<open>ERR_CONNECTION_ENDED\<close>; a stream that carries nothing yields no frame
  (\<open>Inr None\<close>). The second component of \<open>decode_one\<close> is what is left unread on the
  stream.

  The varint is unsigned: seven bits a byte, least significant group first, the high bit
  set on every byte but the last; \<open>read_varint\<close> is \<open>None\<close> when the bytes end inside it.
\<close>

fun read_varint :: "bytes \<Rightarrow> (nat \<times> bytes) option" where
  "read_varint [] = None"
| "read_varint (b # bs) =
     (if b < 0x80 then Some (unat b, bs)
      else (case read_varint bs of
              None \<Rightarrow> None
            | Some (n, rest) \<Rightarrow> Some (unat (b AND 0x7F) + 128 * n, rest)))"

text \<open>Modelled from the spec: \<^verbatim>\<open>decode_one(stream, max_len)\<close>, as described above.\<close>

definition decode_one :: "nat \<Rightarrow> bytes \<Rightarrow> (error + bytes option) \<times> bytes" where
  "decode_one max_len stream =
     (if stream = [] then (Inr None, [])
      else (case read_varint stream of
              None \<Rightarrow> (Inl (CodeError ERR_CONNECTION_ENDED), [])
            | Some (n, rest) \<Rightarrow>
                if max_len < n then (Inl (CodeError ERR_MESSAGE_TOO_LARGE), rest)
                else if length rest < n then (Inl (CodeError ERR_CONNECTION_ENDED), [])
                else (Inr (Some (take n rest)), drop n rest)))"

subsection \<open>The service\<close>

definition MAX_IDENTIFY_MESSAGE_SIZE :: nat where
  "MAX_IDENTIFY_MESSAGE_SIZE = 1024 * 8"

text \<open>\<^verbatim>\<open>this.init.maxIdentifyMessageSize ?? MAX_IDENTIFY_MESSAGE_SIZE\<close>\<close>

definition maxDataLength :: "IdentifyServiceInit \<Rightarrow> nat" where
  "maxDataLength i =
     (case maxIdentifyMessageSize i of None \<Rightarrow> MAX_IDENTIFY_MESSAGE_SIZE | Some n \<Rightarrow> n)"

text \<open>\<^verbatim>\<open>this.init.maxObservedAddresses ?? Infinity\<close>\<close>

definition observedAddrsLimit :: "IdentifyServiceInit \<Rightarrow> enat" where
  "observedAddrsLimit i = (case maxObservedAddresses i of None \<Rightarrow> \<infinity> | Some n \<Rightarrow> enat n)"

definition identifyProtocolStr :: "constants \<Rightarrow> IdentifyServiceInit \<Rightarrow> string" where
  "identifyProtocolStr k i =
     ''/'' @ protocolPrefix i @ ''/'' @ MULTICODEC_IDENTIFY_PROTOCOL_NAME k @ ''/'' @
     MULTICODEC_IDENTIFY_PROTOCOL_VERSION k"

definition identifyPushProtocolStr :: "constants \<Rightarrow> IdentifyServiceInit \<Rightarrow> string" where
  "identifyPushProtocolStr k i =
     ''/'' @ protocolPrefix i @ ''/'' @ MULTICODEC_IDENTIFY_PUSH_PROTOCOL_NAME k @ ''/'' @
     MULTICODEC_IDENTIFY_PUSH_PROTOCOL_VERSION k"

text \<open>\<^verbatim>\<open>this.host\<close>\<close>

definition host_protocolVersion :: "constants \<Rightarrow> IdentifyServiceInit \<Rightarrow> string" where
  "host_protocolVersion k i = protocolPrefix i @ ''/'' @ IDENTIFY_PROTOCOL_VERSION k"

text \<open>The constructor: \<^verbatim>\<open>started = false\<close>, and three listeners subscribed.\<close>

definition constructor :: "state \<Rightarrow> state" where
  "constructor s =
     s\<lparr>started := False,
       listeners := listeners s @ [OnPeerConnect, OnChangeMultiaddrs, OnChangeProtocols]\<rparr>"

definition isStarted :: "state \<Rightarrow> bool" where
  "isStarted s = started s"

definition start :: "constants \<Rightarrow> IdentifyServiceInit \<Rightarrow> components \<Rightarrow> state \<Rightarrow> state" where
  "start k i c s =
     (if started s then s
      else
        let s1 = metadataBook_setValue (peerId c) ''AgentVersion''
                   (uint8ArrayFromString (host_agentVersion i)) s;
            s2 = metadataBook_setValue (peerId c) ''ProtocolVersion''
                   (uint8ArrayFromString (host_protocolVersion k i)) s1;
            s3 = registrar_handle (identifyProtocolStr k i)
                   (maxInboundStreams i, maxOutboundStreams i) s2;
            s4 = registrar_handle (identifyPushProtocolStr k i)
                   (maxPushIncomingStreams i, maxPushOutgoingStreams i) s3
        in s4\<lparr>started := True\<rparr>)"

definition stop :: "constants \<Rightarrow> IdentifyServiceInit \<Rightarrow> state \<Rightarrow> state" where
  "stop k i s =
     (let s1 = registrar_unhandle (identifyProtocolStr k i) s;
          s2 = registrar_unhandle (identifyPushProtocolStr k i) s1
      in s2\<lparr>started := False\<rparr>)"

text \<open>\<^verbatim>\<open>push(connections)\<close>: one message for all the connections; a connection whose
  push stream cannot be opened is logged and skipped. The message is recorded as it is
  handed to \<^verbatim>\<open>Identify.encode\<close>.\<close>

definition push_message :: "components \<Rightarrow> state \<Rightarrow> Identify" where
  "push_message c s =
     \<lparr>protocolVersion = None, agentVersion = None, publicKey = None,
      listenAddrs = map ma_bytes (addresses s),
      observedAddr = None,
      protocols = peerStore_get_protocols s (peerId c),
      signedPeerRecord = peerRecordEnvelope (peerStore s) (peerId c)\<rparr>"

definition push :: "constants \<Rightarrow> IdentifyServiceInit \<Rightarrow> components \<Rightarrow> connection list \<Rightarrow> state \<Rightarrow> state" where
  "push k i c conns s =
     s\<lparr>pushed := pushed s @
          map (\<lambda>conn. (remotePeer conn, push_message c s))
            (filter (\<lambda>conn. case newStream conn (identifyPushProtocolStr k i) of
                               Inl e \<Rightarrow> False | Inr sink \<Rightarrow> True) conns)\<rparr>"

definition pushToPeerStore :: "constants \<Rightarrow> IdentifyServiceInit \<Rightarrow> components \<Rightarrow> state \<Rightarrow> state" where
  "pushToPeerStore k i c s =
     (if \<not> isStarted s then s
      else push k i c
             (filter (\<lambda>conn. identifyPushProtocolStr k i \<in> set (peerStore_get_protocols s (remotePeer conn)))
                (connections s))
             s)"

text \<open>\<^verbatim>\<open>_identify(connection)\<close>: open a stream, read one frame, decode it.\<close>

definition priv_identify :: "deps \<Rightarrow> constants \<Rightarrow> IdentifyServiceInit \<Rightarrow> connection \<Rightarrow> error + Identify" where
  "priv_identify d k i conn =
     (case newStream conn (identifyProtocolStr k i) of
        Inl e \<Rightarrow> Inl e
      | Inr source \<Rightarrow>
          (case fst (decode_one (maxDataLength i) source) of
             Inl e \<Rightarrow> Inl e
           | Inr None \<Rightarrow> Inl (CodeError ERR_CONNECTION_ENDED)
           | Inr (Some data) \<Rightarrow>
               (case Identify_decode d data of
                  None \<Rightarrow> Inl (CodeError ERR_INVALID_MESSAGE)
                | Some message \<Rightarrow> Inr message)))"

text \<open>\<^verbatim>\<open>getCleanMultiaddr(addr)\<close>\<close>

definition getCleanMultiaddr :: "deps \<Rightarrow> bytes option \<Rightarrow> Multiaddr option" where
  "getCleanMultiaddr d addr =
     (case addr of
        None \<Rightarrow> None
      | Some a \<Rightarrow> if length a > 0 then multiaddr d a else None)"

text \<open>\<^verbatim>\<open>listenAddrs.map((addr) => multiaddr(addr))\<close>: \<open>None\<close> when the parser throws on
  an entry, which ends the whole \<^verbatim>\<open>map\<close>.\<close>

fun map_multiaddr :: "deps \<Rightarrow> bytes list \<Rightarrow> Multiaddr list option" where
  "map_multiaddr d [] = Some []"
| "map_multiaddr d (addr # addrs) =
     (case multiaddr d addr of
        None \<Rightarrow> None
      | Some ma \<Rightarrow> (case map_multiaddr d addrs of None \<Rightarrow> None | Some mas \<Rightarrow> Some (ma # mas)))"

text \<open>The block \<^verbatim>\<open>try { await addressBook.set(id', listenAddrs.map(...)) } catch { log }\<close>
  of \<^verbatim>\<open>identify\<close> and \<^verbatim>\<open>_handlePush\<close>.\<close>

definition setLegacyAddrs :: "deps \<Rightarrow> PeerId \<Rightarrow> bytes list \<Rightarrow> state \<Rightarrow> state" where
  "setLegacyAddrs d id' addrs s =
     (case map_multiaddr d addrs of
        None \<Rightarrow> s
      | Some mas \<Rightarrow> addressBook_set id' mas s)"

text \<open>The block that \<^verbatim>\<open>identify\<close> has twice (lines 341-349 and 371-379): the protocols,
  then \<^verbatim>\<open>AgentVersion\<close> and \<^verbatim>\<open>ProtocolVersion\<close> when the message has them.\<close>

definition setProtocolsAndMetadata :: "PeerId \<Rightarrow> Identify \<Rightarrow> state \<Rightarrow> state" where
  "setProtocolsAndMetadata id' message s =
     (let s1 = protoBook_set id' (protocols message) s;
          s2 = (case agentVersion message of
                  None \<Rightarrow> s1
                | Some av \<Rightarrow> metadataBook_setValue id' ''AgentVersion'' (uint8ArrayFromString av) s1)
      in (case protocolVersion message of
            None \<Rightarrow> s2
          | Some pv \<Rightarrow> metadataBook_setValue id' ''ProtocolVersion'' (uint8ArrayFromString pv) s2))"

text \<open>The \<^verbatim>\<open>try\<close> block of \<^verbatim>\<open>identify\<close> on a signed peer record (lines 330-360): whether
  the address book consumed the envelope, and the state after the attempt. A throw of
  \<^verbatim>\<open>openAndCertify\<close> and the throw on an envelope of another peer are caught there.\<close>

definition identify_consumeEnvelope :: "deps \<Rightarrow> PeerId \<Rightarrow> bytes option \<Rightarrow> state \<Rightarrow> bool \<times> state" where
  "identify_consumeEnvelope d id' spr s =
     (case spr of
        None \<Rightarrow> (False, s)
      | Some raw \<Rightarrow>
          (case openAndCertify d raw of
             None \<Rightarrow> (False, s)
           | Some envelope \<Rightarrow>
               if envelope_peerId envelope \<noteq> id' then (False, s)
               else addressBook_consumePeerRecord d envelope s))"

text \<open>\<^verbatim>\<open>identify(connection)\<close> from line 327 on, for the peer \<open>id'\<close> it has derived.\<close>

definition identify_store :: "deps \<Rightarrow> IdentifyServiceInit \<Rightarrow> PeerId \<Rightarrow> Identify \<Rightarrow> state \<Rightarrow> state" where
  "identify_store d i id' message s =
     (let cleanObservedAddr = getCleanMultiaddr d (observedAddr message);
          (consumed, s1) = identify_consumeEnvelope d id' (signedPeerRecord message) s
      in if consumed then setProtocolsAndMetadata id' message s1
         else
           let s2 = setLegacyAddrs d id' (listenAddrs message) s1;
               s3 = setProtocolsAndMetadata id' message s2
           in (case cleanObservedAddr of
                 None \<Rightarrow> s3
               | Some ma \<Rightarrow>
                   if enat (length (observedAddrs s3)) < observedAddrsLimit i
                   then addressManager_addObservedAddr d ma s3
                   else s3))"

text \<open>\<^verbatim>\<open>identify(connection)\<close>: \<open>Some e\<close> when it throws \<open>e\<close>, \<open>None\<close> when it returns.\<close>

definition identify :: "deps \<Rightarrow> constants \<Rightarrow> IdentifyServiceInit \<Rightarrow> components \<Rightarrow> connection \<Rightarrow> state \<Rightarrow> error option \<times> state" where
  "identify d k i c conn s =
     (case priv_identify d k i conn of
        Inl e \<Rightarrow> (Some e, s)
      | Inr message \<Rightarrow>
          (case publicKey message of
             None \<Rightarrow> (Some (CodeError ERR_MISSING_PUBLIC_KEY), s)
           | Some pk \<Rightarrow>
               (case peerIdFromKeys d pk of
                  Inl msg \<Rightarrow> (Some (LibError msg), s)
                | Inr id' \<Rightarrow>
                    if remotePeer conn \<noteq> id' then (Some (CodeError ERR_INVALID_PEER), s)
                    else if peerId c = id' then (Some (CodeError ERR_INVALID_PEER), s)
                    else (None, identify_store d i id' message s))))"

text \<open>\<^verbatim>\<open>_handleIdentify({ connection, stream })\<close>: the message handed to the stream
  (\<open>None\<close> when building it throws, which is logged), and the state after.\<close>

definition handleIdentify_message :: "deps \<Rightarrow> constants \<Rightarrow> IdentifyServiceInit \<Rightarrow> components \<Rightarrow> connection \<Rightarrow> state \<Rightarrow> Multiaddr list \<Rightarrow> bytes option \<Rightarrow> Identify" where
  "handleIdentify_message d k i c conn s multiaddrs spr =
     \<lparr>protocolVersion = Some (host_protocolVersion k i),
      agentVersion = Some (host_agentVersion i),
      publicKey = Some (case peerId_publicKey c of None \<Rightarrow> [] | Some pk \<Rightarrow> pk),
      listenAddrs = map ma_bytes multiaddrs,
      observedAddr = Some (ma_bytes (remoteAddr conn)),
      protocols = peerStore_get_protocols s (peerId c),
      signedPeerRecord = spr\<rparr>"

definition handleIdentify :: "deps \<Rightarrow> constants \<Rightarrow> IdentifyServiceInit \<Rightarrow> components \<Rightarrow> connection \<Rightarrow> state \<Rightarrow> Identify option \<times> state" where
  "handleIdentify d k i c conn s =
     (let multiaddrs = map (decapsulateCode_p2p d) (addresses s);
          signedPeerRecord0 = peerRecordEnvelope (peerStore s) (peerId c)
      in if length multiaddrs > 0 \<and> signedPeerRecord0 = None
         then (case seal d (peerId c) multiaddrs of
                 None \<Rightarrow> (None, s)
               | Some envelope \<Rightarrow>
                   (Some (handleIdentify_message d k i c conn s multiaddrs (Some (marshal d envelope))),
                    snd (addressBook_consumePeerRecord d envelope s)))
         else (Some (handleIdentify_message d k i c conn s multiaddrs signedPeerRecord0), s))"

text \<open>The \<^verbatim>\<open>try\<close> block of \<^verbatim>\<open>_handlePush\<close> on a signed peer record (lines 495-514).\<close>

definition handlePush_consumeEnvelope :: "deps \<Rightarrow> bytes option \<Rightarrow> state \<Rightarrow> bool \<times> state" where
  "handlePush_consumeEnvelope d spr s =
     (case spr of
        None \<Rightarrow> (False, s)
      | Some raw \<Rightarrow>
          (case openAndCertify d raw of
             None \<Rightarrow> (False, s)
           | Some envelope \<Rightarrow> addressBook_consumePeerRecord d envelope s))"

text \<open>\<^verbatim>\<open>_handlePush({ connection, stream })\<close>, \<open>source\<close> being the bytes the remote
  writes on the stream.\<close>

definition handlePush :: "deps \<Rightarrow> IdentifyServiceInit \<Rightarrow> components \<Rightarrow> connection \<Rightarrow> bytes \<Rightarrow> state \<Rightarrow> state" where
  "handlePush d i c conn source s =
     (case fst (decode_one (maxDataLength i) source) of
        Inl e \<Rightarrow> s
      | Inr None \<Rightarrow> s
      | Inr (Some data) \<Rightarrow>
          (case Identify_decode d data of
             None \<Rightarrow> s
           | Some message \<Rightarrow>
               let id' = remotePeer conn
               in if peerId c = id' then s
                  else
                    let (consumed, s1) = handlePush_consumeEnvelope d (signedPeerRecord message) s
                    in if consumed then protoBook_set id' (protocols message) s1
                       else protoBook_set id' (protocols message)
                              (setLegacyAddrs d id' (listenAddrs message) s1)))"

subsection \<open>Events\<close>

text \<open>What each listener of the constructor does with an event; the error of an
  \<^verbatim>\<open>identify\<close> it started is logged.\<close>

fun runListener :: "deps \<Rightarrow> constants \<Rightarrow> IdentifyServiceInit \<Rightarrow> components \<Rightarrow> event \<Rightarrow> listener \<Rightarrow> state \<Rightarrow> state" where
  "runListener d k i c (PeerConnect conn) OnPeerConnect s = snd (identify d k i c conn s)"
| "runListener d k i c (ChangeMultiaddrs p) OnChangeMultiaddrs s =
     (if peerId c = p then pushToPeerStore k i c s else s)"
| "runListener d k i c (ChangeProtocols p) OnChangeProtocols s =
     (if peerId c = p then pushToPeerStore k i c s else s)"
| "runListener d k i c ev l s = s"

text \<open>An event reaches every listener that is subscribed when it is dispatched.\<close>

definition dispatchEvent :: "deps \<Rightarrow> constants \<Rightarrow> IdentifyServiceInit \<Rightarrow> components \<Rightarrow> event \<Rightarrow> state \<Rightarrow> state" where
  "dispatchEvent d k i c ev s = fold (runListener d k i c ev) (listeners s) s"

text \<open>One identify exchange after the other, on the connections in their order.\<close>

fun identify_each :: "deps \<Rightarrow> constants \<Rightarrow> IdentifyServiceInit \<Rightarrow> components \<Rightarrow> connection list \<Rightarrow> state \<Rightarrow> state" where
  "identify_each d k i c [] s = s"
| "identify_each d k i c (conn # conns) s = identify_each d k i c conns (snd (identify d k i c conn s))"

subsection \<open>A small network\<close>

text \<open>
  Concrete values for the parameters, on which the theorems below are run: three peers
  (the local peer \<open>peerA\<close>, and \<open>peerB\<close>, \<open>peerZ\<close>) whose peer-id is the identity hash of a
  one-byte key; a message format of one byte a field in place of protobuf; envelopes of
  two bytes (signer, sequence number) that verify unless the signer is 0 and that the
  address book consumes when the sequence number is positive; multiaddrs that parse when
  their first byte is 4.
\<close>

definition peerA :: PeerId where "peerA = PeerId [0x0A]"
definition peerB :: PeerId where "peerB = PeerId [0x0B]"
definition peerZ :: PeerId where "peerZ = PeerId [0x0C]"

definition ex_constants :: constants where
  "ex_constants = \<lparr>IDENTIFY_PROTOCOL_VERSION = ''0.1.0'',
     MULTICODEC_IDENTIFY_PROTOCOL_NAME = ''id'',
     MULTICODEC_IDENTIFY_PUSH_PROTOCOL_NAME = ''id/push'',
     MULTICODEC_IDENTIFY_PROTOCOL_VERSION = ''1.0.0'',
     MULTICODEC_IDENTIFY_PUSH_PROTOCOL_VERSION = ''1.0.0''\<rparr>"

definition ex_init :: IdentifyServiceInit where
  "ex_init = \<lparr>protocolPrefix = ''ipfs'', host_agentVersion = ''a/1'', timeout = 30000,
     maxIdentifyMessageSize = None, maxInboundStreams = 1, maxOutboundStreams = 1,
     maxPushIncomingStreams = 1, maxPushOutgoingStreams = 1, maxObservedAddresses = Some 1\<rparr>"

definition ex_message :: "bytes \<Rightarrow> byte \<Rightarrow> bytes list \<Rightarrow> bytes option \<Rightarrow> Identify" where
  "ex_message pk obs addrs spr =
     \<lparr>protocolVersion = Some ''ipfs/0.1.0'', agentVersion = Some ''b/1'', publicKey = Some pk,
      listenAddrs = addrs, observedAddr = Some [4, obs], protocols = [''/chat/1''],
      signedPeerRecord = spr\<rparr>"

definition ex_empty_message :: Identify where
  "ex_empty_message =
     \<lparr>protocolVersion = None, agentVersion = None, publicKey = None, listenAddrs = [],
      observedAddr = None, protocols = [], signedPeerRecord = None\<rparr>"

definition ex_key :: "byte \<Rightarrow> bytes" where
  "ex_key b = (if b = 0 then [] else [b])"

definition ex_decode :: "bytes \<Rightarrow> Identify option" where
  "ex_decode data =
     (case data of
        [] \<Rightarrow> Some ex_empty_message
      | [pk, obs] \<Rightarrow> Some (ex_message (ex_key pk) obs [[4, 1]] None)
      | [pk, obs, a] \<Rightarrow> Some (ex_message (ex_key pk) obs [[4, 1], [a]] None)
      | [pk, obs, p, sq] \<Rightarrow> Some (ex_message (ex_key pk) obs [[4, 1]] (Some [p, sq]))
      | [pk, obs, p, sq, a] \<Rightarrow> Some (ex_message (ex_key pk) obs [[4, 1], [a]] (Some [p, sq]))
      | _ \<Rightarrow> None)"

definition ex_envelope :: "byte \<Rightarrow> byte \<Rightarrow> RecordEnvelope" where
  "ex_envelope p sq =
     \<lparr>envelope_peerId = PeerId [p], envelope_seq = unat sq, envelope_multiaddrs = [Multiaddr [4, 7]]\<rparr>"

definition ex_deps :: deps where
  "ex_deps = \<lparr>
     Identify_decode = ex_decode,
     peerIdFromKeys = (\<lambda>pk. if pk = [] then Inl ''unsupported key'' else Inr (PeerId pk)),
     openAndCertify =
       (\<lambda>raw. case raw of [p, sq] \<Rightarrow> if p = 0 then None else Some (ex_envelope p sq) | _ \<Rightarrow> None),
     seal = (\<lambda>p mas. Some \<lparr>envelope_peerId = p, envelope_seq = 1, envelope_multiaddrs = mas\<rparr>),
     marshal = (\<lambda>e. [0x0A, 1]),
     multiaddr = (\<lambda>a. case a of [] \<Rightarrow> None | b # bs \<Rightarrow> if b = 4 then Some (Multiaddr a) else None),
     decapsulateCode_p2p = (\<lambda>ma. ma),
     consumePeerRecord =
       (\<lambda>e ps. if 0 < envelope_seq e
               then (True, ps\<lparr>addressBook := (addressBook ps)(envelope_peerId e \<mapsto> envelope_multiaddrs e)\<rparr>)
               else (False, ps)),
     addObservedAddr = (\<lambda>ma mas. if ma \<in> set mas then mas else mas @ [ma])\<rparr>"

definition ex_components :: components where
  "ex_components = \<lparr>peerId = peerA, peerId_publicKey = None\<rparr>"

definition ex_connection :: "PeerId \<Rightarrow> bytes \<Rightarrow> connection" where
  "ex_connection p source =
     \<lparr>remotePeer = p, remoteAddr = Multiaddr [4, 2],
      newStream = (\<lambda>protocol. if protocol = ''/ipfs/id/1.0.0'' \<or> protocol = ''/ipfs/id/push/1.0.0''
                              then Inr source
                              else Inl (LibError ''protocol selection failed''))\<rparr>"

definition ex_peer_store :: peer_store where
  "ex_peer_store = \<lparr>addressBook = Map.empty, protoBook = Map.empty,
                      metadataBook = Map.empty, peerRecordEnvelope = Map.empty\<rparr>"

definition ex_state :: state where
  "ex_state = \<lparr>peerStore = ex_peer_store,
     observedAddrs = [], addresses = [], connections = [], handlers = Map.empty,
     started = False, listeners = [], pushed = [], calls = []\<rparr>"

text \<open>The service constructed and started on a node that has one connection, to
  \<open>peerB\<close>, a peer known to speak the push protocol.\<close>

definition ex_running :: state where
  "ex_running =
     start ex_constants ex_init ex_components
       (constructor
          (ex_state\<lparr>connections := [ex_connection peerB [2, 0x0B, 9]],
                    peerStore := ex_peer_store\<lparr>protoBook := [peerB \<mapsto> [''/ipfs/id/push/1.0.0'']]\<rparr>\<rparr>))"

section \<open>Properties\<close>

subsection \<open>Unfolding and evaluation\<close>

lemmas ex_defs = peerA_def peerB_def peerZ_def ex_constants_def ex_init_def ex_message_def
  ex_empty_message_def ex_key_def ex_decode_def ex_envelope_def ex_deps_def ex_components_def
  ex_connection_def ex_peer_store_def ex_state_def ex_running_def

lemmas read_defs = priv_identify_def decode_one_def maxDataLength_def MAX_IDENTIFY_MESSAGE_SIZE_def
  identifyProtocolStr_def

lemmas store_defs = identify_store_def identify_consumeEnvelope_def setLegacyAddrs_def
  setProtocolsAndMetadata_def getCleanMultiaddr_def observedAddrsLimit_def
  addressBook_set_def addressBook_consumePeerRecord_def protoBook_set_def
  metadataBook_setValue_def addressManager_addObservedAddr_def uint8ArrayFromString_def

lemmas service_defs = start_def stop_def constructor_def registrar_handle_def registrar_unhandle_def
  host_protocolVersion_def identifyPushProtocolStr_def isStarted_def pushToPeerStore_def push_def
  push_message_def peerStore_get_protocols_def dispatchEvent_def

lemmas push_defs = handlePush_def handlePush_consumeEnvelope_def

subsection \<open>What each block writes\<close>

lemma map_multiaddr_None_iff:
  "map_multiaddr d addrs = None \<longleftrightarrow> (\<exists>a \<in> set addrs. multiaddr d a = None)"
  by (induction addrs) (auto split: option.splits)

lemma map_multiaddr_Some_iff:
  "list_all2 (\<lambda>a ma. multiaddr d a = Some ma) addrs mas \<longleftrightarrow> map_multiaddr d addrs = Some mas"
proof (induction addrs arbitrary: mas)
  case Nil
  then show ?case by auto
next
  case (Cons a addrs)
  then show ?case by (cases mas) (auto split: option.splits)
qed

lemma setProtocolsAndMetadata_frame:
  "observedAddrs (setProtocolsAndMetadata id' m s) = observedAddrs s"
  "addressBook (peerStore (setProtocolsAndMetadata id' m s)) = addressBook (peerStore s)"
  "filter is_AddressBook_set (calls (setProtocolsAndMetadata id' m s)) = filter is_AddressBook_set (calls s)"
  "filter is_AddObservedAddr (calls (setProtocolsAndMetadata id' m s)) = filter is_AddObservedAddr (calls s)"
  "protoBook (peerStore (setProtocolsAndMetadata id' m s)) id' = Some (protocols m)"
  by (simp_all add: setProtocolsAndMetadata_def Let_def protoBook_set_def metadataBook_setValue_def
        split: option.splits)

lemma setLegacyAddrs_frame:
  "observedAddrs (setLegacyAddrs d id' addrs s) = observedAddrs s"
  "filter is_AddObservedAddr (calls (setLegacyAddrs d id' addrs s)) = filter is_AddObservedAddr (calls s)"
  by (simp_all add: setLegacyAddrs_def addressBook_set_def split: option.splits)

lemma setLegacyAddrs_parsed:
  assumes "map_multiaddr d addrs = Some mas"
  shows "addressBook (peerStore (setLegacyAddrs d id' addrs s)) id' = Some mas
       \<and> filter is_AddressBook_set (calls (setLegacyAddrs d id' addrs s))
           = filter is_AddressBook_set (calls s) @ [AddressBook_set id' mas]"
  using assms by (simp add: setLegacyAddrs_def addressBook_set_def)

lemma setLegacyAddrs_unparseable:
  assumes "a \<in> set addrs" and "multiaddr d a = None"
  shows "setLegacyAddrs d id' addrs s = s"
proof -
  from assms have "map_multiaddr d addrs = None"
    by (auto simp add: map_multiaddr_None_iff)
  then show ?thesis by (simp add: setLegacyAddrs_def)
qed

lemma protoBook_set_frame:
  "addressBook (peerStore (protoBook_set p ps s)) = addressBook (peerStore s)"
  "filter is_AddressBook_set (calls (protoBook_set p ps s)) = filter is_AddressBook_set (calls s)"
  "protoBook (peerStore (protoBook_set p ps s)) p = Some ps"
  by (simp_all add: protoBook_set_def)

lemma addressManager_addObservedAddr_frame:
  "peerStore (addressManager_addObservedAddr d ma s) = peerStore s"
  "filter is_AddressBook_set (calls (addressManager_addObservedAddr d ma s)) = filter is_AddressBook_set (calls s)"
  by (simp_all add: addressManager_addObservedAddr_def)

lemma identify_consumeEnvelope_frame:
  "observedAddrs (snd (identify_consumeEnvelope d id' spr s)) = observedAddrs s"
  "filter is_AddObservedAddr (calls (snd (identify_consumeEnvelope d id' spr s))) = filter is_AddObservedAddr (calls s)"
  "filter is_AddressBook_set (calls (snd (identify_consumeEnvelope d id' spr s))) = filter is_AddressBook_set (calls s)"
  by (simp_all add: identify_consumeEnvelope_def addressBook_consumePeerRecord_def split: option.splits)

lemma identify_consumeEnvelope_accepts_iff:
  "fst (identify_consumeEnvelope d id' spr s) \<longleftrightarrow>
     (\<exists>raw envelope. spr = Some raw \<and> openAndCertify d raw = Some envelope
        \<and> envelope_peerId envelope = id' \<and> fst (consumePeerRecord d envelope (peerStore s)))"
  by (auto simp add: identify_consumeEnvelope_def addressBook_consumePeerRecord_def split: option.splits)

lemma handlePush_consumeEnvelope_frame:
  "filter is_AddressBook_set (calls (snd (handlePush_consumeEnvelope d spr s))) = filter is_AddressBook_set (calls s)"
  by (simp add: handlePush_consumeEnvelope_def addressBook_consumePeerRecord_def split: option.splits)

lemma identify_passes:
  assumes "priv_identify d k i conn = Inr message" and "publicKey message = Some pk"
      and "peerIdFromKeys d pk = Inr id'" and "remotePeer conn = id'" and "peerId c \<noteq> id'"
  shows "identify d k i c conn s = (None, identify_store d i id' message s)"
  using assms by (simp add: identify_def)

lemma identify_result:
  "snd (identify d k i c conn s) = s
   \<or> (\<exists>id' m. snd (identify d k i c conn s) = identify_store d i id' m s)"
  by (auto simp add: identify_def split: sum.splits option.splits)

lemma identify_store_consumed:
  assumes "signedPeerRecord message = Some raw" and "openAndCertify d raw = Some envelope"
      and "envelope_peerId envelope = id'" and "fst (consumePeerRecord d envelope (peerStore s))"
  shows "addressBook (peerStore (identify_store d i id' message s))
           = addressBook (snd (consumePeerRecord d envelope (peerStore s)))
       \<and> filter is_AddressBook_set (calls (identify_store d i id' message s))
           = filter is_AddressBook_set (calls s)"
  using assms
  by (simp add: identify_store_def Let_def case_prod_beta identify_consumeEnvelope_def
        addressBook_consumePeerRecord_def setProtocolsAndMetadata_frame)

lemma identify_store_legacy:
  assumes "\<not> fst (identify_consumeEnvelope d id' (signedPeerRecord message) s)"
  shows "addressBook (peerStore (identify_store d i id' message s))
           = addressBook (peerStore (setLegacyAddrs d id' (listenAddrs message)
                (snd (identify_consumeEnvelope d id' (signedPeerRecord message) s))))
       \<and> filter is_AddressBook_set (calls (identify_store d i id' message s))
           = filter is_AddressBook_set (calls (setLegacyAddrs d id' (listenAddrs message)
                (snd (identify_consumeEnvelope d id' (signedPeerRecord message) s))))
       \<and> protoBook (peerStore (identify_store d i id' message s)) id' = Some (protocols message)"
  using assms
  by (simp add: identify_store_def Let_def case_prod_beta setProtocolsAndMetadata_frame
        addressManager_addObservedAddr_frame split: option.splits)

lemma identify_store_observedAddrs:
  "observedAddrs (identify_store d i id' m s) = observedAddrs s
   \<or> (enat (length (observedAddrs s)) < observedAddrsLimit i
       \<and> (\<exists>ma. observedAddrs (identify_store d i id' m s) = addObservedAddr d ma (observedAddrs s)))"
  by (auto simp add: identify_store_def Let_def case_prod_beta setProtocolsAndMetadata_frame
        setLegacyAddrs_frame identify_consumeEnvelope_frame addressManager_addObservedAddr_def
        split: option.splits)

lemma identify_store_at_limit:
  assumes "\<not> enat (length (observedAddrs s)) < observedAddrsLimit i"
  shows "observedAddrs (identify_store d i id' m s) = observedAddrs s
       \<and> filter is_AddObservedAddr (calls (identify_store d i id' m s)) = filter is_AddObservedAddr (calls s)"
  using assms
  by (auto simp add: identify_store_def Let_def case_prod_beta setProtocolsAndMetadata_frame
        setLegacyAddrs_frame identify_consumeEnvelope_frame
        split: option.splits)

lemma identify_within_limit:
  assumes contract: "\<And>ma mas. length (addObservedAddr d ma mas) \<le> Suc (length mas)"
      and inv: "enat (length (observedAddrs s)) \<le> observedAddrsLimit i"
  shows "enat (length (observedAddrs (snd (identify d k i c conn s)))) \<le> observedAddrsLimit i"
proof -
  consider "snd (identify d k i c conn s) = s"
    | id' m where "snd (identify d k i c conn s) = identify_store d i id' m s"
    using identify_result by blast
  then show ?thesis
  proof cases
    case 1
    with inv show ?thesis by simp
  next
    case 2
    from identify_store_observedAddrs [of d i id' m s] show ?thesis
    proof
      assume "observedAddrs (identify_store d i id' m s) = observedAddrs s"
      with 2 inv show ?thesis by simp
    next
      assume a: "enat (length (observedAddrs s)) < observedAddrsLimit i
        \<and> (\<exists>ma. observedAddrs (identify_store d i id' m s) = addObservedAddr d ma (observedAddrs s))"
      then obtain ma where
        eq: "observedAddrs (identify_store d i id' m s) = addObservedAddr d ma (observedAddrs s)"
        by blast
      from a have "enat (Suc (length (observedAddrs s))) \<le> observedAddrsLimit i"
        by (simp add: Suc_ile_eq)
      moreover have "enat (length (addObservedAddr d ma (observedAddrs s))) \<le> enat (Suc (length (observedAddrs s)))"
        using contract by simp
      ultimately show ?thesis using 2 eq by (metis order_trans)
    qed
  qed
qed

lemma identify_each_within_limit:
  assumes contract: "\<And>ma mas. length (addObservedAddr d ma mas) \<le> Suc (length mas)"
  shows "enat (length (observedAddrs s)) \<le> observedAddrsLimit i \<Longrightarrow>
         enat (length (observedAddrs (identify_each d k i c conns s))) \<le> observedAddrsLimit i"
proof (induction conns arbitrary: s)
  case Nil
  then show ?case by simp
next
  case (Cons conn conns)
  from contract Cons.prems
  have "enat (length (observedAddrs (snd (identify d k i c conn s)))) \<le> observedAddrsLimit i"
    by (rule identify_within_limit)
  then show ?case by (simp add: Cons.IH)
qed

lemma handlePush_legacy:
  assumes "fst (decode_one (maxDataLength i) source) = Inr (Some data)"
      and "Identify_decode d data = Some message"
      and "peerId c \<noteq> remotePeer conn"
      and "\<not> fst (handlePush_consumeEnvelope d (signedPeerRecord message) s)"
  shows "handlePush d i c conn source s =
           protoBook_set (remotePeer conn) (protocols message)
             (setLegacyAddrs d (remotePeer conn) (listenAddrs message)
                (snd (handlePush_consumeEnvelope d (signedPeerRecord message) s)))"
  using assms by (simp add: handlePush_def Let_def case_prod_beta)

lemma pushToPeerStore_stopped:
  "\<not> started s \<Longrightarrow> pushToPeerStore k i c s = s"
  by (simp add: pushToPeerStore_def isStarted_def)

lemma change_listeners_stopped:
  assumes "\<not> started s"
  shows "fold (runListener d k i c (ChangeMultiaddrs p)) ls s = s"
    and "fold (runListener d k i c (ChangeProtocols p)) ls s = s"
proof -
  have one: "runListener d k i c (ChangeMultiaddrs p) l s = s"
       "runListener d k i c (ChangeProtocols p) l s = s" for l
    using assms by (cases l; simp add: pushToPeerStore_stopped)+
  show "fold (runListener d k i c (ChangeMultiaddrs p)) ls s = s"
    by (induction ls) (simp_all add: one)
  show "fold (runListener d k i c (ChangeProtocols p)) ls s = s"
    by (induction ls) (simp_all add: one)
qed

lemma stop_frame:
  "\<not> started (stop k i s)"
  "listeners (stop k i s) = listeners s"
  "handlers (stop k i s) (identifyProtocolStr k i) = None"
  "handlers (stop k i s) (identifyPushProtocolStr k i) = None"
  by (simp_all add: stop_def registrar_unhandle_def Let_def)

subsection \<open>The signed peer record and the legacy addresses\<close>

text \<open>
  C1. In an identify exchange that has passed the checks on the public key: when the
  message carries a signed peer record that verifies, whose peer-id is the derived
  peer-id and that \<^verbatim>\<open>consumePeerRecord\<close> accepts, \<^verbatim>\<open>addressBook.set\<close> is not called and the
  address book is what \<^verbatim>\<open>consumePeerRecord\<close> left. In every other case (no signed peer
  record, a failed verification, another peer-id, or a record the address book
  rejects), and when every entry of \<^verbatim>\<open>listenAddrs\<close> parses, \<^verbatim>\<open>addressBook.set\<close> is called
  once for the peer, with the parsed entries in their order.
\<close>

theorem identify_envelope_or_listen_addrs:
  assumes "priv_identify d k i conn = Inr message"
      and "publicKey message = Some pk"
      and "peerIdFromKeys d pk = Inr id'"
      and "remotePeer conn = id'"
      and "peerId c \<noteq> id'"
  shows "(signedPeerRecord message = Some raw \<and> openAndCertify d raw = Some envelope
          \<and> envelope_peerId envelope = id' \<and> fst (consumePeerRecord d envelope (peerStore s)) \<longrightarrow>
            addressBook (peerStore (snd (identify d k i c conn s)))
              = addressBook (snd (consumePeerRecord d envelope (peerStore s)))
            \<and> filter is_AddressBook_set (calls (snd (identify d k i c conn s)))
                = filter is_AddressBook_set (calls s))
       \<and> (\<not> (\<exists>raw envelope. signedPeerRecord message = Some raw \<and> openAndCertify d raw = Some envelope
                \<and> envelope_peerId envelope = id' \<and> fst (consumePeerRecord d envelope (peerStore s)))
          \<and> list_all2 (\<lambda>a ma. multiaddr d a = Some ma) (listenAddrs message) mas \<longrightarrow>
            addressBook (peerStore (snd (identify d k i c conn s))) id' = Some mas
            \<and> filter is_AddressBook_set (calls (snd (identify d k i c conn s)))
                = filter is_AddressBook_set (calls s) @ [AddressBook_set id' mas])"
proof -
  from assms have run: "snd (identify d k i c conn s) = identify_store d i id' message s"
    by (simp add: identify_passes)
  show ?thesis
  proof (intro conjI impI)
    assume "signedPeerRecord message = Some raw \<and> openAndCertify d raw = Some envelope
          \<and> envelope_peerId envelope = id' \<and> fst (consumePeerRecord d envelope (peerStore s))"
    then have "addressBook (peerStore (identify_store d i id' message s))
           = addressBook (snd (consumePeerRecord d envelope (peerStore s)))
       \<and> filter is_AddressBook_set (calls (identify_store d i id' message s))
           = filter is_AddressBook_set (calls s)"
      by (simp add: identify_store_consumed)
    with run show "addressBook (peerStore (snd (identify d k i c conn s)))
              = addressBook (snd (consumePeerRecord d envelope (peerStore s)))"
      and "filter is_AddressBook_set (calls (snd (identify d k i c conn s)))
                = filter is_AddressBook_set (calls s)"
      by simp_all
  next
    assume other: "\<not> (\<exists>raw envelope. signedPeerRecord message = Some raw \<and> openAndCertify d raw = Some envelope
                \<and> envelope_peerId envelope = id' \<and> fst (consumePeerRecord d envelope (peerStore s)))
          \<and> list_all2 (\<lambda>a ma. multiaddr d a = Some ma) (listenAddrs message) mas"
    then have rejected: "\<not> fst (identify_consumeEnvelope d id' (signedPeerRecord message) s)"
      by (simp add: identify_consumeEnvelope_accepts_iff)
    from other have parsed: "map_multiaddr d (listenAddrs message) = Some mas"
      by (simp add: map_multiaddr_Some_iff)
    from identify_store_legacy [OF rejected, of i] setLegacyAddrs_parsed [OF parsed]
    have "addressBook (peerStore (identify_store d i id' message s)) id' = Some mas
       \<and> filter is_AddressBook_set (calls (identify_store d i id' message s))
           = filter is_AddressBook_set (calls s) @ [AddressBook_set id' mas]"
      by (simp add: identify_consumeEnvelope_frame)
    with run show "addressBook (peerStore (snd (identify d k i c conn s))) id' = Some mas"
      and "filter is_AddressBook_set (calls (snd (identify d k i c conn s)))
                = filter is_AddressBook_set (calls s) @ [AddressBook_set id' mas]"
      by simp_all
  qed
qed

text \<open>The five cases on the small network: a record that is consumed; no record; a
  record of another peer; a record the address book rejects; a record that does not
  verify.\<close>

theorem identify_envelope_or_listen_addrs_witness:
  "addressBook (peerStore (snd (identify ex_deps ex_constants ex_init ex_components
      (ex_connection peerB [4, 0x0B, 9, 0x0B, 1]) ex_state))) peerB = Some [Multiaddr [4, 7]]
   \<and> filter is_AddressBook_set (calls (snd (identify ex_deps ex_constants ex_init ex_components
      (ex_connection peerB [4, 0x0B, 9, 0x0B, 1]) ex_state))) = []
   \<and> addressBook (peerStore (snd (identify ex_deps ex_constants ex_init ex_components
      (ex_connection peerB [2, 0x0B, 9]) ex_state))) peerB = Some [Multiaddr [4, 1]]
   \<and> filter is_AddressBook_set (calls (snd (identify ex_deps ex_constants ex_init ex_components
      (ex_connection peerB [2, 0x0B, 9]) ex_state))) = [AddressBook_set peerB [Multiaddr [4, 1]]]
   \<and> addressBook (peerStore (snd (identify ex_deps ex_constants ex_init ex_components
      (ex_connection peerB [4, 0x0B, 9, 0x0C, 1]) ex_state))) peerB = Some [Multiaddr [4, 1]]
   \<and> addressBook (peerStore (snd (identify ex_deps ex_constants ex_init ex_components
      (ex_connection peerB [4, 0x0B, 9, 0x0B, 0]) ex_state))) peerB = Some [Multiaddr [4, 1]]
   \<and> addressBook (peerStore (snd (identify ex_deps ex_constants ex_init ex_components
      (ex_connection peerB [4, 0x0B, 9, 0, 1]) ex_state))) peerB = Some [Multiaddr [4, 1]]"
proof -
  have k: "peerIdFromKeys ex_deps [0x0B] = Inr peerB"
    by (simp add: ex_deps_def peerB_def)
  have l: "peerId ex_components \<noteq> peerB"
    by (simp add: ex_components_def peerA_def peerB_def)
  have p: "list_all2 (\<lambda>a ma. multiaddr ex_deps a = Some ma) [[4, 1]] [Multiaddr [4, 1]]"
    by (simp add: ex_deps_def)
  have r1: "priv_identify ex_deps ex_constants ex_init (ex_connection peerB [4, 0x0B, 9, 0x0B, 1])
              = Inr (ex_message [0x0B] 9 [[4, 1]] (Some [0x0B, 1]))"
    by (simp add: read_defs ex_defs)
  have a1: "signedPeerRecord (ex_message [0x0B] 9 [[4, 1]] (Some [0x0B, 1])) = Some [0x0B, 1]
      \<and> openAndCertify ex_deps [0x0B, 1] = Some (ex_envelope 0x0B 1)
      \<and> envelope_peerId (ex_envelope 0x0B 1) = peerB
      \<and> fst (consumePeerRecord ex_deps (ex_envelope 0x0B 1) (peerStore ex_state))"
    by (simp add: ex_defs)
  have r2: "priv_identify ex_deps ex_constants ex_init (ex_connection peerB [2, 0x0B, 9])
              = Inr (ex_message [0x0B] 9 [[4, 1]] None)"
    by (simp add: read_defs ex_defs)
  have a2: "\<not> (\<exists>raw envelope. signedPeerRecord (ex_message [0x0B] 9 [[4, 1]] None) = Some raw
      \<and> openAndCertify ex_deps raw = Some envelope \<and> envelope_peerId envelope = peerB
      \<and> fst (consumePeerRecord ex_deps envelope (peerStore ex_state)))"
    by (simp add: ex_message_def)
  have r3: "priv_identify ex_deps ex_constants ex_init (ex_connection peerB [4, 0x0B, 9, 0x0C, 1])
              = Inr (ex_message [0x0B] 9 [[4, 1]] (Some [0x0C, 1]))"
    by (simp add: read_defs ex_defs)
  have a3: "\<not> (\<exists>raw envelope. signedPeerRecord (ex_message [0x0B] 9 [[4, 1]] (Some [0x0C, 1])) = Some raw
      \<and> openAndCertify ex_deps raw = Some envelope \<and> envelope_peerId envelope = peerB
      \<and> fst (consumePeerRecord ex_deps envelope (peerStore ex_state)))"
    by (auto simp add: ex_defs)
  have r4: "priv_identify ex_deps ex_constants ex_init (ex_connection peerB [4, 0x0B, 9, 0x0B, 0])
              = Inr (ex_message [0x0B] 9 [[4, 1]] (Some [0x0B, 0]))"
    by (simp add: read_defs ex_defs)
  have a4: "\<not> (\<exists>raw envelope. signedPeerRecord (ex_message [0x0B] 9 [[4, 1]] (Some [0x0B, 0])) = Some raw
      \<and> openAndCertify ex_deps raw = Some envelope \<and> envelope_peerId envelope = peerB
      \<and> fst (consumePeerRecord ex_deps envelope (peerStore ex_state)))"
    by (auto simp add: ex_defs)
  have r5: "priv_identify ex_deps ex_constants ex_init (ex_connection peerB [4, 0x0B, 9, 0, 1])
              = Inr (ex_message [0x0B] 9 [[4, 1]] (Some [0, 1]))"
    by (simp add: read_defs ex_defs)
  have a5: "\<not> (\<exists>raw envelope. signedPeerRecord (ex_message [0x0B] 9 [[4, 1]] (Some [0, 1])) = Some raw
      \<and> openAndCertify ex_deps raw = Some envelope \<and> envelope_peerId envelope = peerB
      \<and> fst (consumePeerRecord ex_deps envelope (peerStore ex_state)))"
    by (auto simp add: ex_defs)
  have m: "\<And>pk obs addrs spr. publicKey (ex_message pk obs addrs spr) = Some pk"
      "\<And>pk obs addrs spr. listenAddrs (ex_message pk obs addrs spr) = addrs"
    by (simp_all add: ex_message_def)
  have c: "\<And>src. remotePeer (ex_connection peerB src) = peerB"
    by (simp add: ex_connection_def)
  have e: "addressBook (snd (consumePeerRecord ex_deps (ex_envelope 0x0B 1) (peerStore ex_state))) peerB
             = Some [Multiaddr [4, 7]]"
    by (simp add: ex_defs)
  have n: "filter is_AddressBook_set (calls ex_state) = []"
    by (simp add: ex_state_def)
  from identify_envelope_or_listen_addrs [OF r1 m(1) k c l, of "[0x0B, 1]" "ex_envelope 0x0B 1" ex_state] a1 e n
  have w1: "addressBook (peerStore (snd (identify ex_deps ex_constants ex_init ex_components
      (ex_connection peerB [4, 0x0B, 9, 0x0B, 1]) ex_state))) peerB = Some [Multiaddr [4, 7]]
   \<and> filter is_AddressBook_set (calls (snd (identify ex_deps ex_constants ex_init ex_components
      (ex_connection peerB [4, 0x0B, 9, 0x0B, 1]) ex_state))) = []"
    by simp
  from identify_envelope_or_listen_addrs [OF r2 m(1) k c l, of _ _ ex_state "[Multiaddr [4, 1]]"] a2 p n
  have w2: "addressBook (peerStore (snd (identify ex_deps ex_constants ex_init ex_components
      (ex_connection peerB [2, 0x0B, 9]) ex_state))) peerB = Some [Multiaddr [4, 1]]
   \<and> filter is_AddressBook_set (calls (snd (identify ex_deps ex_constants ex_init ex_components
      (ex_connection peerB [2, 0x0B, 9]) ex_state))) = [AddressBook_set peerB [Multiaddr [4, 1]]]"
    by (simp add: m)
  from identify_envelope_or_listen_addrs [OF r3 m(1) k c l, of _ _ ex_state "[Multiaddr [4, 1]]"] a3 p
  have w3: "addressBook (peerStore (snd (identify ex_deps ex_constants ex_init ex_components
      (ex_connection peerB [4, 0x0B, 9, 0x0C, 1]) ex_state))) peerB = Some [Multiaddr [4, 1]]"
    by (simp add: m)
  from identify_envelope_or_listen_addrs [OF r4 m(1) k c l, of _ _ ex_state "[Multiaddr [4, 1]]"] a4 p
  have w4: "addressBook (peerStore (snd (identify ex_deps ex_constants ex_init ex_components
      (ex_connection peerB [4, 0x0B, 9, 0x0B, 0]) ex_state))) peerB = Some [Multiaddr [4, 1]]"
    by (simp add: m)
  from identify_envelope_or_listen_addrs [OF r5 m(1) k c l, of _ _ ex_state "[Multiaddr [4, 1]]"] a5 p
  have w5: "addressBook (peerStore (snd (identify ex_deps ex_constants ex_init ex_components
      (ex_connection peerB [4, 0x0B, 9, 0, 1]) ex_state))) peerB = Some [Multiaddr [4, 1]]"
    by (simp add: m)
  from w1 w2 w3 w4 w5 show ?thesis by simp
qed

text \<open>Without the condition on the entries the second half of C1 fails: the signed
  peer record does not verify, one entry of \<^verbatim>\<open>listenAddrs\<close> does not parse, the exchange
  completes, and nothing is set on the address book.\<close>

theorem identify_listen_addrs_not_set_counterexample:
  "priv_identify ex_deps ex_constants ex_init (ex_connection peerB [5, 0x0B, 9, 0, 1, 0xFF])
     = Inr (ex_message [0x0B] 9 [[4, 1], [0xFF]] (Some [0, 1]))
   \<and> openAndCertify ex_deps [0, 1] = None
   \<and> fst (identify ex_deps ex_constants ex_init ex_components
        (ex_connection peerB [5, 0x0B, 9, 0, 1, 0xFF]) ex_state) = None
   \<and> addressBook (peerStore (snd (identify ex_deps ex_constants ex_init ex_components
        (ex_connection peerB [5, 0x0B, 9, 0, 1, 0xFF]) ex_state))) peerB = None
   \<and> filter is_AddressBook_set (calls (snd (identify ex_deps ex_constants ex_init ex_components
        (ex_connection peerB [5, 0x0B, 9, 0, 1, 0xFF]) ex_state))) = []"
  by (simp add: identify_def read_defs store_defs ex_defs)

text \<open>
  C6. When an entry of \<^verbatim>\<open>listenAddrs\<close> does not parse, the legacy path of
  \<^verbatim>\<open>identify\<close> and of \<^verbatim>\<open>_handlePush\<close> applies no entry at all: \<^verbatim>\<open>addressBook.set\<close> is not
  called and the address book stays as the attempt on the signed peer record left it;
  the protocols of the message are still set.
\<close>

theorem unparseable_listen_addr_skips_all:
  assumes "a \<in> set (listenAddrs message)"
      and "multiaddr d a = None"
  shows "(priv_identify d k i conn = Inr message \<and> publicKey message = Some pk
          \<and> peerIdFromKeys d pk = Inr id' \<and> remotePeer conn = id' \<and> peerId c \<noteq> id'
          \<and> \<not> fst (identify_consumeEnvelope d id' (signedPeerRecord message) s) \<longrightarrow>
            addressBook (peerStore (snd (identify d k i c conn s)))
              = addressBook (peerStore (snd (identify_consumeEnvelope d id' (signedPeerRecord message) s)))
            \<and> filter is_AddressBook_set (calls (snd (identify d k i c conn s)))
                = filter is_AddressBook_set (calls s)
            \<and> protoBook (peerStore (snd (identify d k i c conn s))) id' = Some (protocols message))
       \<and> (fst (decode_one (maxDataLength i) source) = Inr (Some data)
          \<and> Identify_decode d data = Some message \<and> peerId c \<noteq> remotePeer conn'
          \<and> \<not> fst (handlePush_consumeEnvelope d (signedPeerRecord message) s) \<longrightarrow>
            addressBook (peerStore (handlePush d i c conn' source s))
              = addressBook (peerStore (snd (handlePush_consumeEnvelope d (signedPeerRecord message) s)))
            \<and> filter is_AddressBook_set (calls (handlePush d i c conn' source s))
                = filter is_AddressBook_set (calls s)
            \<and> protoBook (peerStore (handlePush d i c conn' source s)) (remotePeer conn')
                = Some (protocols message))"
proof (intro conjI impI)
  assume h: "priv_identify d k i conn = Inr message \<and> publicKey message = Some pk
          \<and> peerIdFromKeys d pk = Inr id' \<and> remotePeer conn = id' \<and> peerId c \<noteq> id'
          \<and> \<not> fst (identify_consumeEnvelope d id' (signedPeerRecord message) s)"
  then have run: "snd (identify d k i c conn s) = identify_store d i id' message s"
    by (simp add: identify_passes)
  from h have "\<not> fst (identify_consumeEnvelope d id' (signedPeerRecord message) s)"
    by simp
  from identify_store_legacy [OF this, of i] run
  have "addressBook (peerStore (snd (identify d k i c conn s)))
              = addressBook (peerStore (snd (identify_consumeEnvelope d id' (signedPeerRecord message) s)))
            \<and> filter is_AddressBook_set (calls (snd (identify d k i c conn s)))
                = filter is_AddressBook_set (calls s)
            \<and> protoBook (peerStore (snd (identify d k i c conn s))) id' = Some (protocols message)"
    by (simp add: setLegacyAddrs_unparseable [OF assms] identify_consumeEnvelope_frame)
  then show "addressBook (peerStore (snd (identify d k i c conn s)))
              = addressBook (peerStore (snd (identify_consumeEnvelope d id' (signedPeerRecord message) s)))"
    and "filter is_AddressBook_set (calls (snd (identify d k i c conn s)))
                = filter is_AddressBook_set (calls s)"
    and "protoBook (peerStore (snd (identify d k i c conn s))) id' = Some (protocols message)"
    by simp_all
next
  assume h: "fst (decode_one (maxDataLength i) source) = Inr (Some data)
          \<and> Identify_decode d data = Some message \<and> peerId c \<noteq> remotePeer conn'
          \<and> \<not> fst (handlePush_consumeEnvelope d (signedPeerRecord message) s)"
  then have "handlePush d i c conn' source s =
           protoBook_set (remotePeer conn') (protocols message)
             (setLegacyAddrs d (remotePeer conn') (listenAddrs message)
                (snd (handlePush_consumeEnvelope d (signedPeerRecord message) s)))"
    by (simp add: handlePush_legacy)
  then have "addressBook (peerStore (handlePush d i c conn' source s))
              = addressBook (peerStore (snd (handlePush_consumeEnvelope d (signedPeerRecord message) s)))
            \<and> filter is_AddressBook_set (calls (handlePush d i c conn' source s))
                = filter is_AddressBook_set (calls s)
            \<and> protoBook (peerStore (handlePush d i c conn' source s)) (remotePeer conn')
                = Some (protocols message)"
    by (simp add: setLegacyAddrs_unparseable [OF assms] protoBook_set_frame
          handlePush_consumeEnvelope_frame)
  then show "addressBook (peerStore (handlePush d i c conn' source s))
              = addressBook (peerStore (snd (handlePush_consumeEnvelope d (signedPeerRecord message) s)))"
    and "filter is_AddressBook_set (calls (handlePush d i c conn' source s))
                = filter is_AddressBook_set (calls s)"
    and "protoBook (peerStore (handlePush d i c conn' source s)) (remotePeer conn')
                = Some (protocols message)"
    by simp_all
qed

text \<open>A message without signed peer record whose second address does not parse, read
  by \<^verbatim>\<open>identify\<close> and by \<^verbatim>\<open>_handlePush\<close>.\<close>

theorem unparseable_listen_addr_skips_all_witness:
  "listenAddrs (ex_message [0x0B] 9 [[4, 1], [5]] None) = [[4, 1], [5]]
   \<and> multiaddr ex_deps [4, 1] = Some (Multiaddr [4, 1])
   \<and> multiaddr ex_deps [5] = None
   \<and> addressBook (peerStore (snd (identify ex_deps ex_constants ex_init ex_components
        (ex_connection peerB [3, 0x0B, 9, 5]) ex_state))) = addressBook (peerStore ex_state)
   \<and> filter is_AddressBook_set (calls (snd (identify ex_deps ex_constants ex_init ex_components
        (ex_connection peerB [3, 0x0B, 9, 5]) ex_state))) = []
   \<and> protoBook (peerStore (snd (identify ex_deps ex_constants ex_init ex_components
        (ex_connection peerB [3, 0x0B, 9, 5]) ex_state))) peerB = Some [''/chat/1'']
   \<and> addressBook (peerStore (handlePush ex_deps ex_init ex_components
        (ex_connection peerB []) [3, 0x0B, 9, 5] ex_state)) = addressBook (peerStore ex_state)
   \<and> filter is_AddressBook_set (calls (handlePush ex_deps ex_init ex_components
        (ex_connection peerB []) [3, 0x0B, 9, 5] ex_state)) = []
   \<and> protoBook (peerStore (handlePush ex_deps ex_init ex_components
        (ex_connection peerB []) [3, 0x0B, 9, 5] ex_state)) peerB = Some [''/chat/1'']"
proof -
  have m: "listenAddrs (ex_message [0x0B] 9 [[4, 1], [5]] None) = [[4, 1], [5]]"
      "publicKey (ex_message [0x0B] 9 [[4, 1], [5]] None) = Some [0x0B]"
      "signedPeerRecord (ex_message [0x0B] 9 [[4, 1], [5]] None) = None"
      "protocols (ex_message [0x0B] 9 [[4, 1], [5]] None) = [''/chat/1'']"
    by (simp_all add: ex_message_def)
  have g: "multiaddr ex_deps [4, 1] = Some (Multiaddr [4, 1])"
    by (simp add: ex_deps_def)
  have a: "[5] \<in> set (listenAddrs (ex_message [0x0B] 9 [[4, 1], [5]] None))"
    by (simp add: m)
  have b: "multiaddr ex_deps [5] = None"
    by (simp add: ex_deps_def)
  have r: "priv_identify ex_deps ex_constants ex_init (ex_connection peerB [3, 0x0B, 9, 5])
             = Inr (ex_message [0x0B] 9 [[4, 1], [5]] None)"
    by (simp add: read_defs ex_defs)
  have q: "fst (decode_one (maxDataLength ex_init) [3, 0x0B, 9, 5]) = Inr (Some [0x0B, 9, 5])
      \<and> Identify_decode ex_deps [0x0B, 9, 5] = Some (ex_message [0x0B] 9 [[4, 1], [5]] None)"
    by (simp add: read_defs ex_defs)
  have k: "peerIdFromKeys ex_deps [0x0B] = Inr peerB"
    by (simp add: ex_deps_def peerB_def)
  have l: "peerId ex_components \<noteq> peerB"
    by (simp add: ex_components_def peerA_def peerB_def)
  have c: "\<And>src. remotePeer (ex_connection peerB src) = peerB"
    by (simp add: ex_connection_def)
  have e: "\<And>id'. \<not> fst (identify_consumeEnvelope ex_deps id' None ex_state)"
      "\<And>id'. snd (identify_consumeEnvelope ex_deps id' None ex_state) = ex_state"
      "\<not> fst (handlePush_consumeEnvelope ex_deps None ex_state)"
      "snd (handlePush_consumeEnvelope ex_deps None ex_state) = ex_state"
    by (simp_all add: identify_consumeEnvelope_def handlePush_consumeEnvelope_def)
  have n: "filter is_AddressBook_set (calls ex_state) = []"
    by (simp add: ex_state_def)
  from unparseable_listen_addr_skips_all [OF a b, of ex_constants ex_init
         "ex_connection peerB [3, 0x0B, 9, 5]" "[0x0B]" peerB ex_components ex_state
         "[3, 0x0B, 9, 5]" "[0x0B, 9, 5]" "ex_connection peerB []"]
       m g b r q k l c e n
  show ?thesis by simp
qed

text \<open>C6 as the specification states it (only the unparseable entry is skipped) fails:
  of the entries \<open>[4, 1]\<close>, which parses, and \<open>[5]\<close>, which does not, neither reaches the
  address book, in \<^verbatim>\<open>identify\<close> and in \<^verbatim>\<open>_handlePush\<close>.\<close>

theorem parseable_listen_addr_dropped_counterexample:
  "listenAddrs (ex_message [0x0B] 9 [[4, 1], [5]] None) = [[4, 1], [5]]
   \<and> multiaddr ex_deps [4, 1] = Some (Multiaddr [4, 1])
   \<and> multiaddr ex_deps [5] = None
   \<and> priv_identify ex_deps ex_constants ex_init (ex_connection peerB [3, 0x0B, 9, 5])
       = Inr (ex_message [0x0B] 9 [[4, 1], [5]] None)
   \<and> fst (identify ex_deps ex_constants ex_init ex_components
        (ex_connection peerB [3, 0x0B, 9, 5]) ex_state) = None
   \<and> addressBook (peerStore (snd (identify ex_deps ex_constants ex_init ex_components
        (ex_connection peerB [3, 0x0B, 9, 5]) ex_state))) peerB = None
   \<and> addressBook (peerStore (handlePush ex_deps ex_init ex_components
        (ex_connection peerB []) [3, 0x0B, 9, 5] ex_state)) peerB = None"
  by (simp add: identify_def read_defs store_defs push_defs ex_defs Let_def)

text \<open>
  C3. \<^verbatim>\<open>_handlePush\<close> does not compare the peer-id of a verified envelope with the
  remote peer of the connection. A push from \<open>peerB\<close> that carries an envelope signed by
  \<open>peerZ\<close> is consumed by the address book, the protocols of the message are set for
  \<open>peerB\<close>, and the legacy addresses are not looked at; \<^verbatim>\<open>identify\<close>, on the same message
  from \<open>peerB\<close>, does not hand the envelope to the address book.
\<close>

theorem handlePush_consumes_foreign_envelope:
  "Identify_decode ex_deps [0x0B, 9, 0x0C, 1] = Some (ex_message [0x0B] 9 [[4, 1]] (Some [0x0C, 1]))
   \<and> openAndCertify ex_deps [0x0C, 1] = Some (ex_envelope 0x0C 1)
   \<and> envelope_peerId (ex_envelope 0x0C 1) = peerZ
   \<and> remotePeer (ex_connection peerB []) = peerB
   \<and> calls (handlePush ex_deps ex_init ex_components (ex_connection peerB [])
        [4, 0x0B, 9, 0x0C, 1] ex_state)
       = [ConsumePeerRecord (ex_envelope 0x0C 1), ProtoBook_set peerB [''/chat/1'']]
   \<and> addressBook (peerStore (handlePush ex_deps ex_init ex_components (ex_connection peerB [])
        [4, 0x0B, 9, 0x0C, 1] ex_state)) peerZ = Some [Multiaddr [4, 7]]
   \<and> filter is_AddressBook_set (calls (snd (identify ex_deps ex_constants ex_init ex_components
        (ex_connection peerB [4, 0x0B, 9, 0x0C, 1]) ex_state)))
       = [AddressBook_set peerB [Multiaddr [4, 1]]]
   \<and> addressBook (peerStore (snd (identify ex_deps ex_constants ex_init ex_components
        (ex_connection peerB [4, 0x0B, 9, 0x0C, 1]) ex_state))) peerZ = None"
  by (simp add: identify_def read_defs store_defs push_defs ex_defs Let_def)

subsection \<open>Rejected exchanges\<close>

text \<open>
  C2. When the peer-id derived from the message's public key differs from the remote
  peer of the connection, \<^verbatim>\<open>identify\<close> throws \<^verbatim>\<open>ERR_INVALID_PEER\<close> and the state of the
  node is what it was: no write on the address book, the protocol book or the metadata
  book has been made.
\<close>

theorem identify_peer_mismatch:
  assumes "priv_identify d k i conn = Inr message"
      and "publicKey message = Some pk"
      and "peerIdFromKeys d pk = Inr id'"
      and "id' \<noteq> remotePeer conn"
  shows "identify d k i c conn s = (Some (CodeError ERR_INVALID_PEER), s)"
  using assms by (auto simp add: identify_def)

text \<open>\<open>peerB\<close> answers with the key of \<open>peerZ\<close>.\<close>

theorem identify_peer_mismatch_witness:
  "priv_identify ex_deps ex_constants ex_init (ex_connection peerB [2, 0x0C, 9])
     = Inr (ex_message [0x0C] 9 [[4, 1]] None)
   \<and> peerIdFromKeys ex_deps [0x0C] = Inr peerZ
   \<and> peerZ \<noteq> remotePeer (ex_connection peerB [2, 0x0C, 9])
   \<and> identify ex_deps ex_constants ex_init ex_components (ex_connection peerB [2, 0x0C, 9]) ex_state
     = (Some (CodeError ERR_INVALID_PEER), ex_state)"
proof -
  have r: "priv_identify ex_deps ex_constants ex_init (ex_connection peerB [2, 0x0C, 9])
             = Inr (ex_message [0x0C] 9 [[4, 1]] None)"
    by (simp add: read_defs ex_defs)
  have p: "publicKey (ex_message [0x0C] 9 [[4, 1]] None) = Some [0x0C]"
    by (simp add: ex_message_def)
  have q: "peerIdFromKeys ex_deps [0x0C] = Inr peerZ"
    by (simp add: ex_deps_def peerZ_def)
  have n: "peerZ \<noteq> remotePeer (ex_connection peerB [2, 0x0C, 9])"
    by (simp add: ex_connection_def peerZ_def peerB_def)
  from identify_peer_mismatch [OF r p q n] r q n show ?thesis by simp
qed

text \<open>
  C8. When the peer-id derived from the received public key is the local peer-id,
  \<^verbatim>\<open>identify\<close> throws \<^verbatim>\<open>ERR_INVALID_PEER\<close>, whatever the remote peer of the connection is.
\<close>

theorem identify_self_rejected:
  assumes "priv_identify d k i conn = Inr message"
      and "publicKey message = Some pk"
      and "peerIdFromKeys d pk = Inr id'"
      and "id' = peerId c"
  shows "identify d k i c conn s = (Some (CodeError ERR_INVALID_PEER), s)"
  using assms by (simp add: identify_def)

text \<open>A connection whose remote peer is the local peer, answering with the local key.\<close>

theorem identify_self_rejected_witness:
  "priv_identify ex_deps ex_constants ex_init (ex_connection peerA [2, 0x0A, 9])
     = Inr (ex_message [0x0A] 9 [[4, 1]] None)
   \<and> peerIdFromKeys ex_deps [0x0A] = Inr (peerId ex_components)
   \<and> identify ex_deps ex_constants ex_init ex_components (ex_connection peerA [2, 0x0A, 9]) ex_state
     = (Some (CodeError ERR_INVALID_PEER), ex_state)"
proof -
  have r: "priv_identify ex_deps ex_constants ex_init (ex_connection peerA [2, 0x0A, 9])
             = Inr (ex_message [0x0A] 9 [[4, 1]] None)"
    by (simp add: read_defs ex_defs)
  have p: "publicKey (ex_message [0x0A] 9 [[4, 1]] None) = Some [0x0A]"
    by (simp add: ex_message_def)
  have q: "peerIdFromKeys ex_deps [0x0A] = Inr peerA"
    by (simp add: ex_deps_def peerA_def)
  have n: "peerA = peerId ex_components"
    by (simp add: ex_components_def)
  from identify_self_rejected [OF r p q n] r q n show ?thesis by simp
qed

text \<open>
  C10. For a decoded message, \<^verbatim>\<open>identify\<close> throws \<^verbatim>\<open>ERR_MISSING_PUBLIC_KEY\<close> exactly
  when the field \<^verbatim>\<open>publicKey\<close> is absent. A key that is present and of length zero passes
  that check: if the derivation of the peer-id throws on it, \<^verbatim>\<open>identify\<close> throws the
  derivation's own error. The responder \<^verbatim>\<open>_handleIdentify\<close> sends such a zero-length key
  when the local peer-id has no public key.
\<close>

theorem identify_missing_public_key:
  assumes "priv_identify d k i conn = Inr message"
  shows "((fst (identify d k i c conn s) = Some (CodeError ERR_MISSING_PUBLIC_KEY)) = (publicKey message = None))
       \<and> (publicKey message = None \<longrightarrow>
            identify d k i c conn s = (Some (CodeError ERR_MISSING_PUBLIC_KEY), s))
       \<and> (publicKey message = Some [] \<and> peerIdFromKeys d [] = Inl msg \<longrightarrow>
            identify d k i c conn s = (Some (LibError msg), s))
       \<and> (peerId_publicKey c = None \<and> fst (handleIdentify d k i c conn' s') = Some reply \<longrightarrow>
            publicKey reply = Some [])"
  using assms
  by (auto simp add: identify_def handleIdentify_def handleIdentify_message_def Let_def
        split: option.splits sum.splits if_splits)

text \<open>An empty message (no field at all), a message with a zero-length key, and the
  reply of the local responder, whose peer-id has no public key.\<close>

theorem identify_missing_public_key_witness:
  "priv_identify ex_deps ex_constants ex_init (ex_connection peerB [0]) = Inr ex_empty_message
   \<and> identify ex_deps ex_constants ex_init ex_components (ex_connection peerB [0]) ex_state
       = (Some (CodeError ERR_MISSING_PUBLIC_KEY), ex_state)
   \<and> priv_identify ex_deps ex_constants ex_init (ex_connection peerB [2, 0, 9])
       = Inr (ex_message [] 9 [[4, 1]] None)
   \<and> identify ex_deps ex_constants ex_init ex_components (ex_connection peerB [2, 0, 9]) ex_state
       = (Some (LibError ''unsupported key''), ex_state)
   \<and> fst (handleIdentify ex_deps ex_constants ex_init ex_components (ex_connection peerB []) ex_state)
       = Some \<lparr>protocolVersion = Some ''ipfs/0.1.0'', agentVersion = Some ''a/1'',
               publicKey = Some [], listenAddrs = [], observedAddr = Some [4, 2],
               protocols = [], signedPeerRecord = None\<rparr>"
proof -
  have r0: "priv_identify ex_deps ex_constants ex_init (ex_connection peerB [0]) = Inr ex_empty_message"
    by (simp add: read_defs ex_defs)
  have r1: "priv_identify ex_deps ex_constants ex_init (ex_connection peerB [2, 0, 9])
              = Inr (ex_message [] 9 [[4, 1]] None)"
    by (simp add: read_defs ex_defs)
  have h: "fst (handleIdentify ex_deps ex_constants ex_init ex_components (ex_connection peerB []) ex_state)
       = Some \<lparr>protocolVersion = Some ''ipfs/0.1.0'', agentVersion = Some ''a/1'',
               publicKey = Some [], listenAddrs = [], observedAddr = Some [4, 2],
               protocols = [], signedPeerRecord = None\<rparr>"
    by (simp add: handleIdentify_def handleIdentify_message_def host_protocolVersion_def
          peerStore_get_protocols_def ex_defs)
  have e: "publicKey ex_empty_message = None"
    by (simp add: ex_empty_message_def)
  have z: "publicKey (ex_message [] 9 [[4, 1]] None) = Some [] \<and> peerIdFromKeys ex_deps [] = Inl ''unsupported key''"
    by (simp add: ex_message_def ex_deps_def)
  from identify_missing_public_key [OF r0, of ex_components ex_state] e
  have a: "identify ex_deps ex_constants ex_init ex_components (ex_connection peerB [0]) ex_state
       = (Some (CodeError ERR_MISSING_PUBLIC_KEY), ex_state)"
    by simp
  from identify_missing_public_key [OF r1, of ex_components ex_state "''unsupported key''"] z
  have b: "identify ex_deps ex_constants ex_init ex_components (ex_connection peerB [2, 0, 9]) ex_state
       = (Some (LibError ''unsupported key''), ex_state)"
    by simp
  from r0 r1 a b h show ?thesis by simp
qed

text \<open>
  C7. When the frame on the identify stream declares a length above
  \<^verbatim>\<open>maxIdentifyMessageSize\<close> (8192 when the option is not given), \<^verbatim>\<open>identify\<close> throws
  \<^verbatim>\<open>ERR_MESSAGE_TOO_LARGE\<close> with the state of the node unchanged, and the decoder has
  read the length prefix only: the payload is left unread on the stream.
\<close>

theorem identify_frame_too_large:
  assumes "newStream conn (identifyProtocolStr k i) = Inr source"
      and "read_varint source = Some (n, payload)"
      and "maxDataLength i < n"
  shows "identify d k i c conn s = (Some (CodeError ERR_MESSAGE_TOO_LARGE), s)
       \<and> decode_one (maxDataLength i) source = (Inl (CodeError ERR_MESSAGE_TOO_LARGE), payload)
       \<and> maxDataLength (i\<lparr>maxIdentifyMessageSize := None\<rparr>) = 8192"
proof -
  from assms(2) have "source \<noteq> []" by auto
  with assms(2,3)
  have dec: "decode_one (maxDataLength i) source = (Inl (CodeError ERR_MESSAGE_TOO_LARGE), payload)"
    by (simp add: decode_one_def)
  with assms(1) have "priv_identify d k i conn = Inl (CodeError ERR_MESSAGE_TOO_LARGE)"
    by (simp add: priv_identify_def)
  then have "identify d k i c conn s = (Some (CodeError ERR_MESSAGE_TOO_LARGE), s)"
    by (simp add: identify_def)
  with dec show ?thesis
    by (simp add: maxDataLength_def MAX_IDENTIFY_MESSAGE_SIZE_def)
qed

text \<open>A frame that declares 9000 bytes (the varint \<open>A8 46\<close>) against the default limit.\<close>

theorem identify_frame_too_large_witness:
  "read_varint [0xA8, 0x46, 1, 2, 3] = Some (9000, [1, 2, 3])
   \<and> maxDataLength ex_init = 8192
   \<and> identify ex_deps ex_constants ex_init ex_components
        (ex_connection peerB [0xA8, 0x46, 1, 2, 3]) ex_state
     = (Some (CodeError ERR_MESSAGE_TOO_LARGE), ex_state)
   \<and> decode_one 8192 [0xA8, 0x46, 1, 2, 3] = (Inl (CodeError ERR_MESSAGE_TOO_LARGE), [1, 2, 3])"
proof -
  have o: "newStream (ex_connection peerB [0xA8, 0x46, 1, 2, 3]) (identifyProtocolStr ex_constants ex_init)
             = Inr [0xA8, 0x46, 1, 2, 3]"
    by (simp add: ex_connection_def identifyProtocolStr_def ex_constants_def ex_init_def)
  have v: "read_varint [0xA8, 0x46, 1, 2, 3] = Some (9000, [1, 2, 3])"
    by simp
  have m: "maxDataLength ex_init = 8192"
    by (simp add: maxDataLength_def ex_init_def MAX_IDENTIFY_MESSAGE_SIZE_def)
  then have l: "maxDataLength ex_init < 9000"
    by simp
  from identify_frame_too_large [OF o v l, of ex_deps ex_components ex_state] v m
  show ?thesis by simp
qed

subsection \<open>Observed addresses\<close>

text \<open>
  C4. An identify exchange in which the address book consumes the signed peer record
  returns before the observed address is looked at: with no observed address held, a
  limit of one and an observed address that parses, \<^verbatim>\<open>addObservedAddr\<close> is not called.
  The same message without the signed peer record does store the observed address.
\<close>

theorem identify_consumed_envelope_skips_observed_addr:
  "priv_identify ex_deps ex_constants ex_init (ex_connection peerB [4, 0x0B, 9, 0x0B, 1])
     = Inr (ex_message [0x0B] 9 [[4, 1]] (Some [0x0B, 1]))
   \<and> getCleanMultiaddr ex_deps (observedAddr (ex_message [0x0B] 9 [[4, 1]] (Some [0x0B, 1])))
       = Some (Multiaddr [4, 9])
   \<and> observedAddrs ex_state = []
   \<and> observedAddrsLimit ex_init = enat 1
   \<and> fst (identify ex_deps ex_constants ex_init ex_components
        (ex_connection peerB [4, 0x0B, 9, 0x0B, 1]) ex_state) = None
   \<and> observedAddrs (snd (identify ex_deps ex_constants ex_init ex_components
        (ex_connection peerB [4, 0x0B, 9, 0x0B, 1]) ex_state)) = []
   \<and> filter is_AddObservedAddr (calls (snd (identify ex_deps ex_constants ex_init ex_components
        (ex_connection peerB [4, 0x0B, 9, 0x0B, 1]) ex_state))) = []
   \<and> observedAddrs (snd (identify ex_deps ex_constants ex_init ex_components
        (ex_connection peerB [2, 0x0B, 9]) ex_state)) = [Multiaddr [4, 9]]"
  by (simp add: identify_def read_defs store_defs ex_defs one_enat_def)

text \<open>
  C9. Across every sequence of identify exchanges the address manager never holds more
  observed addresses than \<^verbatim>\<open>maxObservedAddresses\<close>, given that it held no more before the
  first exchange and that \<^verbatim>\<open>addObservedAddr\<close> adds at most one address a call; and an
  exchange that starts with the count not strictly below the limit makes no call of
  \<^verbatim>\<open>addObservedAddr\<close> and leaves the observed addresses as they were.
\<close>

theorem observed_addresses_within_limit:
  assumes "\<forall>ma mas. length (addObservedAddr d ma mas) \<le> Suc (length mas)"
      and "enat (length (observedAddrs s)) \<le> observedAddrsLimit i"
  shows "enat (length (observedAddrs (identify_each d k i c conns s))) \<le> observedAddrsLimit i
       \<and> (\<not> enat (length (observedAddrs s')) < observedAddrsLimit i \<longrightarrow>
            observedAddrs (snd (identify d k i c conn s')) = observedAddrs s'
            \<and> filter is_AddObservedAddr (calls (snd (identify d k i c conn s')))
                = filter is_AddObservedAddr (calls s'))"
proof (intro conjI impI)
  from assms show "enat (length (observedAddrs (identify_each d k i c conns s))) \<le> observedAddrsLimit i"
    by (simp add: identify_each_within_limit)
next
  assume full: "\<not> enat (length (observedAddrs s')) < observedAddrsLimit i"
  consider "snd (identify d k i c conn s') = s'"
    | id' m where "snd (identify d k i c conn s') = identify_store d i id' m s'"
    using identify_result by blast
  then have "observedAddrs (snd (identify d k i c conn s')) = observedAddrs s'
            \<and> filter is_AddObservedAddr (calls (snd (identify d k i c conn s')))
                = filter is_AddObservedAddr (calls s')"
  proof cases
    case 1
    then show ?thesis by simp
  next
    case 2
    with identify_store_at_limit [OF full] show ?thesis by simp
  qed
  then show "observedAddrs (snd (identify d k i c conn s')) = observedAddrs s'"
    and "filter is_AddObservedAddr (calls (snd (identify d k i c conn s')))
                = filter is_AddObservedAddr (calls s')"
    by simp_all
qed

text \<open>A limit of one, and two peers that report two observed addresses: the first is
  kept, the second is dropped.\<close>

theorem observed_addresses_within_limit_witness:
  "(\<forall>ma mas. length (addObservedAddr ex_deps ma mas) \<le> Suc (length mas))
   \<and> observedAddrsLimit ex_init = enat 1
   \<and> observedAddrs ex_state = []
   \<and> enat (length (observedAddrs (identify_each ex_deps ex_constants ex_init ex_components
        [ex_connection peerB [2, 0x0B, 8], ex_connection peerZ [2, 0x0C, 9]] ex_state))) \<le> enat 1
   \<and> observedAddrs (identify_each ex_deps ex_constants ex_init ex_components
        [ex_connection peerB [2, 0x0B, 8], ex_connection peerZ [2, 0x0C, 9]] ex_state)
       = [Multiaddr [4, 8]]"
proof -
  have c: "\<forall>ma mas. length (addObservedAddr ex_deps ma mas) \<le> Suc (length mas)"
    by (simp add: ex_deps_def)
  have l: "observedAddrsLimit ex_init = enat 1"
    by (simp add: observedAddrsLimit_def ex_init_def one_enat_def)
  have e: "observedAddrs ex_state = []"
    by (simp add: ex_state_def)
  from e l have i: "enat (length (observedAddrs ex_state)) \<le> observedAddrsLimit ex_init"
    by simp
  have v: "observedAddrs (identify_each ex_deps ex_constants ex_init ex_components
        [ex_connection peerB [2, 0x0B, 8], ex_connection peerZ [2, 0x0C, 9]] ex_state)
       = [Multiaddr [4, 8]]"
    by (simp add: identify_def read_defs store_defs ex_defs one_enat_def)
  from observed_addresses_within_limit [OF c i, of ex_constants ex_components
         "[ex_connection peerB [2, 0x0B, 8], ex_connection peerZ [2, 0x0C, 9]]"] c l e v
  show ?thesis by simp
qed

subsection \<open>Start and stop\<close>

text \<open>
  C5. After \<^verbatim>\<open>stop()\<close> neither protocol string has a handler in the registrar, and a
  change of the local addresses or protocols triggers no push: dispatching the event
  leaves the state as it is. \<^verbatim>\<open>stop()\<close> unsubscribes no listener: with the listeners of
  the constructor, a connection-established event still runs \<^verbatim>\<open>identify\<close> on the
  connection.
\<close>

theorem stop_unregisters_and_keeps_listeners:
  "handlers (stop k i s) (identifyProtocolStr k i) = None
   \<and> handlers (stop k i s) (identifyPushProtocolStr k i) = None
   \<and> dispatchEvent d k i c (ChangeMultiaddrs p) (stop k i s) = stop k i s
   \<and> dispatchEvent d k i c (ChangeProtocols p) (stop k i s) = stop k i s
   \<and> listeners (stop k i s) = listeners s
   \<and> (listeners s = [OnPeerConnect, OnChangeMultiaddrs, OnChangeProtocols] \<longrightarrow>
        dispatchEvent d k i c (PeerConnect conn) (stop k i s)
          = snd (identify d k i c conn (stop k i s)))"
  by (simp add: dispatchEvent_def stop_frame change_listeners_stopped pushToPeerStore_stopped)

text \<open>The running service of the small network, stopped.\<close>

theorem stop_unregisters_and_keeps_listeners_witness:
  "listeners ex_running = [OnPeerConnect, OnChangeMultiaddrs, OnChangeProtocols]
   \<and> handlers ex_running ''/ipfs/id/1.0.0'' = Some (1, 1)
   \<and> handlers (stop ex_constants ex_init ex_running) ''/ipfs/id/1.0.0'' = None
   \<and> handlers (stop ex_constants ex_init ex_running) ''/ipfs/id/push/1.0.0'' = None
   \<and> pushed (dispatchEvent ex_deps ex_constants ex_init ex_components (ChangeProtocols peerA)
        (stop ex_constants ex_init ex_running)) = []
   \<and> pushed (dispatchEvent ex_deps ex_constants ex_init ex_components (ChangeMultiaddrs peerA)
        (stop ex_constants ex_init ex_running)) = []
   \<and> dispatchEvent ex_deps ex_constants ex_init ex_components
        (PeerConnect (ex_connection peerB [2, 0x0B, 9])) (stop ex_constants ex_init ex_running)
       = snd (identify ex_deps ex_constants ex_init ex_components
                (ex_connection peerB [2, 0x0B, 9]) (stop ex_constants ex_init ex_running))"
proof -
  have l: "listeners ex_running = [OnPeerConnect, OnChangeMultiaddrs, OnChangeProtocols]"
    by (simp add: service_defs ex_defs metadataBook_setValue_def Let_def)
  have h: "handlers ex_running ''/ipfs/id/1.0.0'' = Some (1, 1)"
    by (simp add: service_defs read_defs ex_defs metadataBook_setValue_def Let_def)
  have n: "identifyProtocolStr ex_constants ex_init = ''/ipfs/id/1.0.0''"
      "identifyPushProtocolStr ex_constants ex_init = ''/ipfs/id/push/1.0.0''"
    by (simp_all add: identifyProtocolStr_def identifyPushProtocolStr_def ex_constants_def ex_init_def)
  have p: "pushed (stop ex_constants ex_init ex_running) = []"
    by (simp add: service_defs ex_defs metadataBook_setValue_def Let_def)
  from stop_unregisters_and_keeps_listeners [of ex_constants ex_init ex_running ex_deps
         ex_components peerA "ex_connection peerB [2, 0x0B, 9]"] l h n p
  show ?thesis by simp
qed

text \<open>C5 as the specification states it (no identify exchange after \<^verbatim>\<open>stop()\<close>) fails:
  on the stopped service a connection-established event for \<open>peerB\<close> runs the exchange,
  which sets the addresses of \<open>peerB\<close>.\<close>

theorem connect_after_stop_counterexample:
  "started (stop ex_constants ex_init ex_running) = False
   \<and> handlers (stop ex_constants ex_init ex_running) ''/ipfs/id/1.0.0'' = None
   \<and> addressBook (peerStore (stop ex_constants ex_init ex_running)) peerB = None
   \<and> addressBook (peerStore (dispatchEvent ex_deps ex_constants ex_init ex_components
        (PeerConnect (ex_connection peerB [2, 0x0B, 9])) (stop ex_constants ex_init ex_running))) peerB
       = Some [Multiaddr [4, 1]]
   \<and> filter is_AddressBook_set (calls (dispatchEvent ex_deps ex_constants ex_init ex_components
        (PeerConnect (ex_connection peerB [2, 0x0B, 9])) (stop ex_constants ex_init ex_running)))
       = [AddressBook_set peerB [Multiaddr [4, 1]]]"
  by (simp add: service_defs identify_def read_defs store_defs ex_defs Let_def)

end
